theory Spec2Isabelle
  imports Complex_Main "HOL-Library.Word" "HOL-Library.Signed_Division"
begin


section \<open>The control packet shared by the remote and the vehicle\<close>

text \<open>
  \<^verbatim>\<open>struct dataPackage\<close> is declared identically in both programs. The four axes are
  \<^verbatim>\<open>int16_t\<close>, the mode and the two sensitivities \<^verbatim>\<open>int8_t\<close>; they are words read
  with \<open>sint\<close>. The ten \<^verbatim>\<open>bool\<close> members occupy one byte each. On the vehicle the
  struct is filled by \<^verbatim>\<open>radio.read(&rawData, sizeof(dataPackage))\<close>, a raw copy of the
  payload, so such a byte holds whatever was on the air: it is kept as a byte, and a test
  \<^verbatim>\<open>if (rxData.brake)\<close> is the test that the byte is not zero.
\<close>

type_synonym int16_t = "16 word"
type_synonym int8_t = "8 word"
type_synonym byte = "8 word"
type_synonym millis_t = "32 word"

record dataPackage =
  rightX :: int16_t
  leftX :: int16_t
  rightY :: int16_t
  leftY :: int16_t
  mode :: int8_t
  throttleSensitifity :: int8_t
  steerSensitifity :: int8_t
  rightJoystickButton :: byte
  leftJoystickButton :: byte
  ackButton :: byte
  backButton :: byte
  auxButton1 :: byte
  auxButton2 :: byte
  brake :: byte
  honk :: byte
  headLight :: byte
  tailLight :: byte

text \<open>The state machine options, \<^verbatim>\<open>const byte idle = 0\<close> and so on.\<close>

definition idle :: int8_t where "idle = 0"
definition easy :: int8_t where "easy = 1"
definition pro :: int8_t where "pro = 2"
definition debug :: int8_t where "debug = 3"
definition notConnected :: int8_t where "notConnected = 4"

text \<open>The member initialisers of the struct; the vehicle starts with mode 4, the remote with 0.\<close>

definition dataPackage_init :: "int8_t \<Rightarrow> dataPackage" where
  "dataPackage_init m =
     \<lparr>rightX = -1, leftX = -1, rightY = -1, leftY = -1, mode = m,
      throttleSensitifity = -1, steerSensitifity = -1,
      rightJoystickButton = 0, leftJoystickButton = 0, ackButton = 0, backButton = 0,
      auxButton1 = 0, auxButton2 = 0, brake = 0, honk = 0, headLight = 0, tailLight = 0\<rparr>"

section \<open>The vehicle (receiver on the Pro Mini)\<close>

subsection \<open>validateData\<close>

text \<open>
  Seven range checks in the order of the source, each an early \<^verbatim>\<open>return false\<close>. The
  comparisons are signed. No boolean member is looked at.
\<close>

definition validateData :: "dataPackage \<Rightarrow> bool" where
  "validateData check =
     (if sint (rightX check) > 1023 \<or> sint (rightX check) < -1 then False
      else if sint (rightY check) > 1023 \<or> sint (rightY check) < -1 then False
      else if sint (leftX check) > 1023 \<or> sint (leftX check) < -1 then False
      else if sint (leftY check) > 1023 \<or> sint (leftY check) < -1 then False
      else if sint (mode check) > 3 \<or> sint (mode check) < 0 then False
      else if sint (throttleSensitifity check) > 100 \<or> sint (throttleSensitifity check) < -1
        then False
      else if sint (steerSensitifity check) > 100 \<or> sint (steerSensitifity check) < -1
        then False
      else True)"

subsection \<open>State of the vehicle\<close>

text \<open>
  The globals of the receiver program and the outputs it drives. \<open>motorcontroller\<close> and
  \<open>servo\<close> hold the argument of the last \<^verbatim>\<open>write\<close> to the two \<^verbatim>\<open>Servo\<close> objects,
  the four pin fields the level last written with \<^verbatim>\<open>digitalWrite\<close>, and \<open>hornTones\<close>
  the \<^verbatim>\<open>tone(horn, frequency, duration)\<close> calls made so far, latest first.
\<close>

record vehicle =
  rawData :: dataPackage
  rxData :: dataPackage
  lastReceive :: millis_t
  headLightBlink :: millis_t
  motorcontroller :: int
  servo :: int
  receivedLED :: bool
  interferenceLED :: bool
  headLightPin :: bool
  tailLightPin :: bool
  hornTones :: "(int \<times> int) list"

text \<open>
  What one pass of the control loop reads from outside: the radio (\<open>None\<close> when
  \<^verbatim>\<open>radio.available()\<close> is false, otherwise the payload that \<^verbatim>\<open>radio.read\<close> copies
  into \<open>rawData\<close>) and the value of \<^verbatim>\<open>millis()\<close> at each place it is called.
\<close>

record poll =
  radio :: "dataPackage option"
  now_receive :: millis_t
  now_link :: millis_t
  now_blink :: millis_t
  now_blink_set :: millis_t

subsection \<open>receiveData and isConnected\<close>

definition receiveData :: "millis_t \<Rightarrow> dataPackage option \<Rightarrow> vehicle \<Rightarrow> vehicle" where
  "receiveData now incoming v =
     (case incoming of
        None \<Rightarrow> v
      | Some payload \<Rightarrow>
          (let v1 = v\<lparr>receivedLED := True\<rparr>;
               v2 = v1\<lparr>lastReceive := now\<rparr>;
               v3 = v2\<lparr>rawData := payload\<rparr>;
               v4 = (if validateData (rawData v3)
                     then (let v5 = (if mode (rxData v3) = notConnected
                                     then v3\<lparr>hornTones := (880, 500) # (220, 500) # hornTones v3\<rparr>
                                     else v3)
                           in v5\<lparr>rxData := rawData v5\<rparr>)
                     else v3\<lparr>interferenceLED := True\<rparr>)
           in v4\<lparr>receivedLED := False\<rparr>))"

text \<open>\<^verbatim>\<open>millis() - lastReceive > 3000\<close> on \<^verbatim>\<open>unsigned long\<close>: the difference wraps.\<close>

definition isConnected :: "millis_t \<Rightarrow> vehicle \<Rightarrow> vehicle" where
  "isConnected now v =
     (if now - lastReceive v > 3000
      then v\<lparr>rxData := (rxData v)\<lparr>mode := notConnected\<rparr>\<rparr>
      else v)"

subsection \<open>updateAccessoires\<close>

definition updateAccessoires :: "vehicle \<Rightarrow> vehicle" where
  "updateAccessoires v =
     (let v1 = (if headLight (rxData v) \<noteq> 0 then v\<lparr>headLightPin := True\<rparr>
                else v\<lparr>headLightPin := False\<rparr>);
          v2 = (if tailLight (rxData v1) \<noteq> 0 then v1\<lparr>tailLightPin := True\<rparr>
                else v1\<lparr>tailLightPin := False\<rparr>);
          v3 = (if honk (rxData v2) \<noteq> 0 then v2\<lparr>hornTones := (220, 500) # hornTones v2\<rparr>
                else v2)
      in if brake (rxData v3) \<noteq> 0 then v3\<lparr>motorcontroller := 0\<rparr> else v3)"

subsection \<open>Single-precision arithmetic\<close>

text \<open>
  \<^verbatim>\<open>updatePwmDevices\<close> computes its bounds in \<^verbatim>\<open>float\<close>. A float is modelled by the
  rational it denotes, and every operation by the exact result rounded to the nearest
  number with a 24-bit significand, ties to the even significand (IEEE 754 binary32, which
  the compiler's float arithmetic follows). Zero and the normal range are covered; with an
  \<^verbatim>\<open>int8_t\<close> sensitivity every value that occurs lies in it.

  \<open>bitlen n\<close> is the number of binary digits of \<open>n\<close>; \<open>float_exponent x\<close> is the \<open>e\<close>
  with \<open>2^e \<le> x < 2^(e+1)\<close> for a positive \<open>x\<close>.
\<close>

function bitlen :: "int \<Rightarrow> int" where
  "bitlen n = (if n \<le> 0 then 0 else 1 + bitlen (n div 2))"
  by pat_completeness auto
termination
  by (relation "measure nat") auto

declare bitlen.simps [simp del]

definition pow2 :: "int \<Rightarrow> rat" where
  "pow2 e = (if 0 \<le> e then of_int (2 ^ nat e) else 1 / of_int (2 ^ nat (- e)))"

definition float_exponent :: "rat \<Rightarrow> int" where
  "float_exponent x =
     (case quotient_of x of (p, q) \<Rightarrow>
        (let e0 = bitlen p - bitlen q
         in if pow2 e0 \<le> x then e0 else e0 - 1))"

definition round_half_even :: "rat \<Rightarrow> int" where
  "round_half_even m =
     (let f = \<lfloor>m\<rfloor>; r = m - of_int f
      in if r < 1 / 2 then f else if 1 / 2 < r then f + 1
         else if f mod 2 = 0 then f else f + 1)"

definition fl32 :: "rat \<Rightarrow> rat" where
  "fl32 x =
     (if x = 0 then 0
      else (let a = \<bar>x\<bar>; u = pow2 (float_exponent a - 23)
            in sgn x * of_int (round_half_even (a / u)) * u))"

text \<open>
  Conversion of a float to \<^verbatim>\<open>unsigned int\<close> (16 bits on the Pro Mini) drops the
  fraction. C leaves the conversion of a value outside the range undefined; the model
  wraps there, and no theorem below depends on it.
\<close>

definition float_to_uint :: "rat \<Rightarrow> 16 word" where
  "float_to_uint x = word_of_int (if 0 \<le> x then \<lfloor>x\<rfloor> else - \<lfloor>- x\<rfloor>)"

subsection \<open>updatePwmDevices\<close>

text \<open>
  \<^verbatim>\<open>map\<close> belongs to the Arduino core, not to this repository; its body there is
  \<^verbatim>\<open>return (x - in_min) * (out_max - out_min) / (in_max - in_min) + out_min;\<close>
  on \<^verbatim>\<open>long\<close> (32 bits, wrapping; the division truncates towards zero).
\<close>

definition map_arduino ::
  "32 word \<Rightarrow> 32 word \<Rightarrow> 32 word \<Rightarrow> 32 word \<Rightarrow> 32 word \<Rightarrow> 32 word" where
  "map_arduino x in_min in_max out_min out_max =
     word_of_int (sint ((x - in_min) * (out_max - out_min)) sdiv sint (in_max - in_min))
       + out_min"

definition upperBoundary :: int where "upperBoundary = 180"
definition middlepoint :: int where "middlepoint = upperBoundary sdiv 2"

text \<open>
  The source computes the steering position and the throttle by the same three lines, on
  different members of \<open>rxData\<close>. \<open>pwmOffset\<close> is
  \<^verbatim>\<open>(float)middlepoint / 100 * sensitivity\<close>, \<open>pwmMax\<close> and \<open>pwmMin\<close> are the
  \<^verbatim>\<open>unsigned int max\<close> and \<^verbatim>\<open>min\<close>, and \<open>pwmPosition\<close> is the value that
  reaches \<^verbatim>\<open>write\<close>: the \<^verbatim>\<open>long\<close> result of \<^verbatim>\<open>map\<close> stored into an
  \<^verbatim>\<open>unsigned int\<close> and passed as \<^verbatim>\<open>int\<close>.
\<close>

definition pwmOffset :: "int8_t \<Rightarrow> rat" where
  "pwmOffset sens = fl32 (fl32 (of_int middlepoint / 100) * of_int (sint sens))"

definition pwmMax :: "int8_t \<Rightarrow> 16 word" where
  "pwmMax sens = float_to_uint (fl32 (of_int middlepoint + pwmOffset sens))"

definition pwmMin :: "int8_t \<Rightarrow> 16 word" where
  "pwmMin sens = float_to_uint (fl32 (of_int middlepoint - pwmOffset sens))"

definition pwmPosition :: "int8_t \<Rightarrow> int16_t \<Rightarrow> int" where
  "pwmPosition sens raw =
     sint (ucast (map_arduino (scast raw) 0 1023 (ucast (pwmMin sens)) (ucast (pwmMax sens)))
             :: 16 word)"

definition updatePwmDevices :: "vehicle \<Rightarrow> vehicle" where
  "updatePwmDevices v =
     (let steerPosition = pwmPosition (steerSensitifity (rxData v)) (leftX (rxData v));
          v1 = v\<lparr>servo := steerPosition\<rparr>;
          throttle = pwmPosition (throttleSensitifity (rxData v1)) (rightY (rxData v1))
      in v1\<lparr>motorcontroller := throttle\<rparr>)"

subsection \<open>The modes and the control loop\<close>

text \<open>\<^verbatim>\<open>digitalRead\<close> of an output pin gives the level last written to it.\<close>

definition waitForRemote :: "poll \<Rightarrow> vehicle \<Rightarrow> vehicle" where
  "waitForRemote p v =
     (let v1 = v\<lparr>motorcontroller := 90\<rparr>;
          v2 = v1\<lparr>servo := 90\<rparr>;
          v3 = receiveData (now_receive p) (radio p) v2
      in if now_blink p - headLightBlink v3 > 1500
         then (let v4 = v3\<lparr>headLightBlink := now_blink_set p\<rparr>;
                   v5 = v4\<lparr>headLightPin := \<not> headLightPin v4\<rparr>
               in v5\<lparr>tailLightPin := \<not> tailLightPin v5\<rparr>)
         else v3)"

definition idleMode :: "poll \<Rightarrow> vehicle \<Rightarrow> vehicle" where
  "idleMode p v =
     (let v1 = receiveData (now_receive p) (radio p) v;
          v2 = isConnected (now_link p) v1;
          v3 = updateAccessoires v2
      in v3\<lparr>motorcontroller := 90\<rparr>)"

definition easyMode :: "poll \<Rightarrow> vehicle \<Rightarrow> vehicle" where
  "easyMode p v =
     (let v1 = receiveData (now_receive p) (radio p) v;
          v2 = isConnected (now_link p) v1;
          v3 = updateAccessoires v2
      in updatePwmDevices v3)"

definition proMode :: "poll \<Rightarrow> vehicle \<Rightarrow> vehicle" where
  "proMode p v =
     (let v1 = receiveData (now_receive p) (radio p) v;
          v2 = isConnected (now_link p) v1;
          v3 = updateAccessoires v2
      in updatePwmDevices v3)"

definition debugMode :: "poll \<Rightarrow> vehicle \<Rightarrow> vehicle" where
  "debugMode p v =
     (let v1 = receiveData (now_receive p) (radio p) v
      in isConnected (now_link p) v1)"

text \<open>One pass of \<^verbatim>\<open>loop()\<close>: the \<^verbatim>\<open>switch\<close> has no default.\<close>

definition loop :: "poll \<Rightarrow> vehicle \<Rightarrow> vehicle" where
  "loop p v =
     (if mode (rxData v) = notConnected then waitForRemote p v
      else if mode (rxData v) = idle then idleMode p v
      else if mode (rxData v) = easy then easyMode p v
      else if mode (rxData v) = pro then proMode p v
      else if mode (rxData v) = debug then debugMode p v
      else v)"

text \<open>The passes of the control loop, one per element of the list, in order.\<close>

fun run :: "poll list \<Rightarrow> vehicle \<Rightarrow> vehicle" where
  "run [] v = v"
| "run (p # ps) v = run ps (loop p v)"

section \<open>The declared domains of the packet members\<close>

text \<open>
  The domains the specification declares for the wire packet: axes in \<open>[-1, 1023]\<close>,
  mode in \<open>{0, 1, 2, 3}\<close>, sensitivities in \<open>[-1, 100]\<close>, booleans in \<open>{0, 1}\<close>.
  \<open>outside_domain p\<close> lists the members of \<open>p\<close> that lie outside their domain.
\<close>

datatype field =
    RightX | LeftX | RightY | LeftY | Mode | ThrottleSensitifity | SteerSensitifity
  | RightJoystickButton | LeftJoystickButton | AckButton | BackButton | AuxButton1
  | AuxButton2 | Brake | Honk | HeadLight | TailLight

definition axis_domain :: "int16_t \<Rightarrow> bool" where
  "axis_domain x = (- 1 \<le> sint x \<and> sint x \<le> 1023)"

definition mode_domain :: "int8_t \<Rightarrow> bool" where
  "mode_domain m = (sint m = 0 \<or> sint m = 1 \<or> sint m = 2 \<or> sint m = 3)"

definition sensitivity_domain :: "int8_t \<Rightarrow> bool" where
  "sensitivity_domain s = (- 1 \<le> sint s \<and> sint s \<le> 100)"

definition bool_domain :: "byte \<Rightarrow> bool" where
  "bool_domain b = (b = 0 \<or> b = 1)"

fun in_domain :: "field \<Rightarrow> dataPackage \<Rightarrow> bool" where
  "in_domain RightX p = axis_domain (rightX p)"
| "in_domain LeftX p = axis_domain (leftX p)"
| "in_domain RightY p = axis_domain (rightY p)"
| "in_domain LeftY p = axis_domain (leftY p)"
| "in_domain Mode p = mode_domain (mode p)"
| "in_domain ThrottleSensitifity p = sensitivity_domain (throttleSensitifity p)"
| "in_domain SteerSensitifity p = sensitivity_domain (steerSensitifity p)"
| "in_domain RightJoystickButton p = bool_domain (rightJoystickButton p)"
| "in_domain LeftJoystickButton p = bool_domain (leftJoystickButton p)"
| "in_domain AckButton p = bool_domain (ackButton p)"
| "in_domain BackButton p = bool_domain (backButton p)"
| "in_domain AuxButton1 p = bool_domain (auxButton1 p)"
| "in_domain AuxButton2 p = bool_domain (auxButton2 p)"
| "in_domain Brake p = bool_domain (brake p)"
| "in_domain Honk p = bool_domain (honk p)"
| "in_domain HeadLight p = bool_domain (headLight p)"
| "in_domain TailLight p = bool_domain (tailLight p)"

definition numeric_fields :: "field list" where
  "numeric_fields = [RightX, LeftX, RightY, LeftY, Mode, ThrottleSensitifity, SteerSensitifity]"

definition boolean_fields :: "field list" where
  "boolean_fields = [RightJoystickButton, LeftJoystickButton, AckButton, BackButton,
     AuxButton1, AuxButton2, Brake, Honk, HeadLight, TailLight]"

definition outside_domain :: "dataPackage \<Rightarrow> field list" where
  "outside_domain p = filter (\<lambda>f. \<not> in_domain f p) (numeric_fields @ boolean_fields)"

text \<open>A packet with every member inside its domain, used in the examples below.\<close>

definition sample_packet :: dataPackage where
  "sample_packet =
     \<lparr>rightX = 512, leftX = 512, rightY = 1023, leftY = 512, mode = easy,
      throttleSensitifity = 100, steerSensitifity = 50,
      rightJoystickButton = 0, leftJoystickButton = 0, ackButton = 0, backButton = 0,
      auxButton1 = 0, auxButton2 = 0, brake = 1, honk = 0, headLight = 0, tailLight = 0\<rparr>"


section \<open>Example states and inputs of the vehicle\<close>

text \<open>
  A vehicle in easy mode whose active packet is \<open>sample_packet\<close> (brake set, full
  throttle), a pass of the loop with nothing on the radio, and a pass that receives a
  payload; every \<^verbatim>\<open>millis()\<close> of the pass returns \<open>t\<close>.
\<close>

definition sample_vehicle :: vehicle where
  "sample_vehicle =
     \<lparr>rawData = sample_packet, rxData = sample_packet, lastReceive = 0,
      headLightBlink = 0, motorcontroller = 90, servo = 45, receivedLED = False,
      interferenceLED = False, headLightPin = False, tailLightPin = False, hornTones = []\<rparr>"

definition quiet_poll :: "millis_t \<Rightarrow> poll" where
  "quiet_poll t = \<lparr>radio = None, now_receive = t, now_link = t, now_blink = t, now_blink_set = t\<rparr>"

definition packet_poll :: "millis_t \<Rightarrow> dataPackage \<Rightarrow> poll" where
  "packet_poll t payload =
     \<lparr>radio = Some payload, now_receive = t, now_link = t, now_blink = t, now_blink_set = t\<rparr>"


text \<open>The same vehicle still waiting for the remote, as after boot.\<close>

definition waiting_vehicle :: vehicle where
  "waiting_vehicle = sample_vehicle\<lparr>rxData := dataPackage_init notConnected\<rparr>"

text \<open>The same vehicle with both axes centred and both sensitivities at 50.\<close>

definition centred_vehicle :: vehicle where
  "centred_vehicle =
     sample_vehicle\<lparr>rxData := sample_packet\<lparr>leftX := 512, rightY := 512,
       throttleSensitifity := 50, steerSensitifity := 50\<rparr>\<rparr>"

section \<open>The remote (sender on the Teensy LC)\<close>

subsection \<open>Pins and constants\<close>

text \<open>
  \<^verbatim>\<open>A0\<close> to \<^verbatim>\<open>A3\<close> are the pin numbers of the Teensy core, which is not part of this
  repository: 14 to 17. The pin constants of the program carry the suffix \<open>_pin\<close>, since
  the packet members have the same names.
\<close>

definition A0 :: byte where "A0 = 14"
definition A1 :: byte where "A1 = 15"
definition A2 :: byte where "A2 = 16"
definition A3 :: byte where "A3 = 17"

definition rightX_pin :: byte where "rightX_pin = A0"
definition rightY_pin :: byte where "rightY_pin = A1"
definition rightJoystickButton_pin :: byte where "rightJoystickButton_pin = 2"
definition leftX_pin :: byte where "leftX_pin = A2"
definition leftY_pin :: byte where "leftY_pin = A3"
definition leftJoystickButton_pin :: byte where "leftJoystickButton_pin = 3"
definition backButton_pin :: byte where "backButton_pin = 4"
definition ackButton_pin :: byte where "ackButton_pin = 5"
definition auxButton1_pin :: byte where "auxButton1_pin = 6"
definition auxButton2_pin :: byte where "auxButton2_pin = 7"

definition joyStickLowTrigger :: int where "joyStickLowTrigger = 400"
definition joyStickHighTrigger :: int where "joyStickHighTrigger = 600"

definition LOW :: bool where "LOW = False"
definition HIGH :: bool where "HIGH = True"

subsection \<open>Hardware and state\<close>

text \<open>
  The program reads the clock, the analog inputs and the digital inputs many times in one
  pass, and two reads of the same input may differ. The hardware is a function of the
  number of reads made so far: the \<open>n\<close>-th read of the program sees \<open>millis_at hw n\<close>,
  \<open>analog_at hw n pin\<close> or \<open>digital_at hw n pin\<close>. A digital level is \<open>True\<close> for
  \<^verbatim>\<open>HIGH\<close>.
\<close>

record hardware =
  millis_at :: "nat \<Rightarrow> millis_t"
  analog_at :: "nat \<Rightarrow> byte \<Rightarrow> int"
  digital_at :: "nat \<Rightarrow> byte \<Rightarrow> bool"

text \<open>
  The globals of the sender program. The two arrays are maps from the index to the element;
  the program only uses the indices that its \<^verbatim>\<open>switch\<close> statements produce.
  \<open>EEPROM\<close> maps a slot to its byte. \<open>sent\<close> lists the packets handed to
  \<^verbatim>\<open>radio.write\<close>, latest first, and \<open>reads\<close> counts the hardware reads made so far.
\<close>

record remote =
  txData :: dataPackage
  previousSend :: millis_t
  lastButtonState :: "nat \<Rightarrow> bool"
  joystickHomed :: "nat \<Rightarrow> bool"
  EEPROM :: "nat \<Rightarrow> byte"
  sendLED :: bool
  sent :: "dataPackage list"
  reads :: nat

definition millis :: "hardware \<Rightarrow> remote \<Rightarrow> millis_t \<times> remote" where
  "millis hw r = (millis_at hw (reads r), r\<lparr>reads := Suc (reads r)\<rparr>)"

definition analogRead :: "hardware \<Rightarrow> byte \<Rightarrow> remote \<Rightarrow> int \<times> remote" where
  "analogRead hw pin r = (analog_at hw (reads r) pin, r\<lparr>reads := Suc (reads r)\<rparr>)"

definition digitalRead :: "hardware \<Rightarrow> byte \<Rightarrow> remote \<Rightarrow> bool \<times> remote" where
  "digitalRead hw pin r = (digital_at hw (reads r) pin, r\<lparr>reads := Suc (reads r)\<rparr>)"

subsection \<open>sendData\<close>

text \<open>
  The parameter only selects the send delay; the packet that goes out is \<open>txData\<close> with
  the axes and the six buttons sampled anew, and with the mode it already holds.
\<close>

definition sendData :: "hardware \<Rightarrow> byte \<Rightarrow> remote \<Rightarrow> remote" where
  "sendData hw m r =
     (let sendDelay = (if m = idle \<or> m = debug then 2000 else 0 :: 32 word);
          (now, r0) = millis hw r
      in if now - previousSend r0 \<ge> sendDelay
         then
           (let (t, r1) = millis hw r0;
                r2 = r1\<lparr>previousSend := t\<rparr>;
                r3 = r2\<lparr>sendLED := True\<rparr>;
                (a1, r4) = analogRead hw rightX_pin r3;
                r5 = r4\<lparr>txData := (txData r4)\<lparr>rightX := word_of_int a1\<rparr>\<rparr>;
                (a2, r6) = analogRead hw rightY_pin r5;
                r7 = r6\<lparr>txData := (txData r6)\<lparr>rightY := word_of_int a2\<rparr>\<rparr>;
                (a3, r8) = analogRead hw leftX_pin r7;
                r9 = r8\<lparr>txData := (txData r8)\<lparr>leftX := word_of_int a3\<rparr>\<rparr>;
                (a4, r10) = analogRead hw leftY_pin r9;
                r11 = r10\<lparr>txData := (txData r10)\<lparr>leftY := word_of_int a4\<rparr>\<rparr>;
                (d1, r12) = digitalRead hw rightJoystickButton_pin r11;
                r13 = r12\<lparr>txData := (txData r12)\<lparr>rightJoystickButton := of_bool (\<not> d1)\<rparr>\<rparr>;
                (d2, r14) = digitalRead hw leftJoystickButton_pin r13;
                r15 = r14\<lparr>txData := (txData r14)\<lparr>leftJoystickButton := of_bool (\<not> d2)\<rparr>\<rparr>;
                (d3, r16) = digitalRead hw ackButton_pin r15;
                r17 = r16\<lparr>txData := (txData r16)\<lparr>ackButton := of_bool (\<not> d3)\<rparr>\<rparr>;
                (d4, r18) = digitalRead hw backButton_pin r17;
                r19 = r18\<lparr>txData := (txData r18)\<lparr>backButton := of_bool (\<not> d4)\<rparr>\<rparr>;
                (d5, r20) = digitalRead hw auxButton1_pin r19;
                r21 = r20\<lparr>txData := (txData r20)\<lparr>auxButton1 := of_bool (\<not> d5)\<rparr>\<rparr>;
                (d6, r22) = digitalRead hw auxButton2_pin r21;
                r23 = r22\<lparr>txData := (txData r22)\<lparr>auxButton2 := of_bool (\<not> d6)\<rparr>\<rparr>;
                r24 = r23\<lparr>sent := txData r23 # sent r23\<rparr>
            in r24\<lparr>sendLED := False\<rparr>)
         else r0)"

subsection \<open>risingEdge\<close>

text \<open>
  The \<^verbatim>\<open>switch\<close> assigns the index; an unknown button prints an error and returns
  false without reading anything. The \<^verbatim>\<open>delay(2)\<close> before the final return only lets
  time pass.
\<close>

definition buttonIndex :: "byte \<Rightarrow> nat option" where
  "buttonIndex button =
     (if button = rightJoystickButton_pin then Some 0
      else if button = leftJoystickButton_pin then Some 1
      else if button = ackButton_pin then Some 2
      else if button = backButton_pin then Some 3
      else if button = auxButton1_pin then Some 4
      else if button = auxButton2_pin then Some 5
      else None)"

definition risingEdge :: "hardware \<Rightarrow> byte \<Rightarrow> remote \<Rightarrow> bool \<times> remote" where
  "risingEdge hw button r =
     (case buttonIndex button of
        None \<Rightarrow> (False, r)
      | Some index \<Rightarrow>
          (let (buttonState, r1) = digitalRead hw button r
           in if buttonState \<noteq> lastButtonState r1 index
              then (let r2 = r1\<lparr>lastButtonState := (lastButtonState r1)(index := buttonState)\<rparr>
                    in if buttonState = LOW then (True, r2) else (False, r2))
              else (False, r1)))"

subsection \<open>readJoystick\<close>

text \<open>
  Each \<^verbatim>\<open>analogRead\<close> in the two conditions is a read of its own, and \<^verbatim>\<open>&&\<close> and
  \<^verbatim>\<open>||\<close> skip their right operand as in C++.
\<close>

definition joystickIndex :: "byte \<Rightarrow> nat option" where
  "joystickIndex joystick =
     (if joystick = leftY_pin then Some 0
      else if joystick = leftX_pin then Some 1
      else if joystick = rightY_pin then Some 2
      else if joystick = rightX_pin then Some 3
      else None)"

definition readJoystick :: "hardware \<Rightarrow> byte \<Rightarrow> remote \<Rightarrow> int \<times> remote" where
  "readJoystick hw joystick r =
     (case joystickIndex joystick of
        None \<Rightarrow> (512, r)
      | Some index \<Rightarrow>
          (let (a1, r1) = analogRead hw joystick r;
               (inside, r2) =
                 (if a1 < joyStickHighTrigger
                  then (let (a2, r') = analogRead hw joystick r1
                        in (a2 > joyStickLowTrigger, r'))
                  else (False, r1));
               r3 = (if inside then r2\<lparr>joystickHomed := (joystickHomed r2)(index := True)\<rparr>
                     else r2);
               (a3, r4) = analogRead hw joystick r3;
               (outside, r5) =
                 (if a3 > joyStickHighTrigger then (True, r4)
                  else (let (a4, r') = analogRead hw joystick r4
                        in (a4 < joyStickLowTrigger, r')))
           in if outside \<and> joystickHomed r5 index = True
              then (let r6 = r5\<lparr>joystickHomed := (joystickHomed r5)(index := False)\<rparr>;
                        (a5, r7) = analogRead hw joystick r6
                    in (a5, r7))
              else (512, r5)))"

text \<open>Successive calls of \<open>readJoystick\<close> on one axis, each under the hardware of its moment.\<close>

fun readJoystick_calls :: "hardware list \<Rightarrow> byte \<Rightarrow> remote \<Rightarrow> int list \<times> remote" where
  "readJoystick_calls [] joystick r = ([], r)"
| "readJoystick_calls (hw # hws) joystick r =
     (let (y, r1) = readJoystick hw joystick r;
          (ys, r2) = readJoystick_calls hws joystick r1
      in (y # ys, r2))"

subsection \<open>Pro mode and its settings editor\<close>

text \<open>
  \<open>drawProScreen_entry\<close> is what \<^verbatim>\<open>drawProScreen\<close> does to the state before its loop:
  the mode and the two \<^verbatim>\<open>EEPROM.read\<close> calls.
\<close>

definition drawProScreen_entry :: "remote \<Rightarrow> remote" where
  "drawProScreen_entry r =
     (let r1 = r\<lparr>txData := (txData r)\<lparr>mode := pro\<rparr>\<rparr>;
          r2 = r1\<lparr>txData := (txData r1)\<lparr>throttleSensitifity := EEPROM r1 0\<rparr>\<rparr>
      in r2\<lparr>txData := (txData r2)\<lparr>steerSensitifity := EEPROM r2 1\<rparr>\<rparr>)"

text \<open>
  The locals of \<^verbatim>\<open>drawEditProSettings\<close>. \<open>page\<close> is \<open>False\<close> for page 0 (throttle)
  and \<open>True\<close> for page 1 (steering); used as an array or slot index it is 0 or 1.
\<close>

record edit =
  previousBlink :: millis_t
  scrollCooldown :: millis_t
  showCurrentValue :: bool
  valueHighlighted :: bool
  page :: bool
  buffer :: byte

definition slot :: "bool \<Rightarrow> nat" where
  "slot pg = (if pg then 1 else 0)"


text \<open>\<^verbatim>\<open>drawValueSet\<close> draws the prompt and waits 500 ms; it changes no variable.\<close>

definition drawValueSet :: "remote \<Rightarrow> remote" where
  "drawValueSet r = r"

text \<open>Blinking of the value when selected.\<close>

definition editBlink :: "hardware \<Rightarrow> remote \<times> edit \<Rightarrow> remote \<times> edit" where
  "editBlink hw s =
     (let (r, e) = s;
          (now, r1) = millis hw r
      in if now - previousBlink e > 700 \<and> valueHighlighted e
         then (let (t, r2) = millis hw r1;
                   e1 = e\<lparr>previousBlink := t\<rparr>
               in (r2, e1\<lparr>showCurrentValue := \<not> showCurrentValue e1\<rparr>))
         else (r1, e))"

text \<open>Scrolling of the selected value; \<open>buffer\<close> is a \<^verbatim>\<open>byte\<close> and is compared unsigned.\<close>

definition editScroll :: "hardware \<Rightarrow> remote \<times> edit \<Rightarrow> remote \<times> edit" where
  "editScroll hw s =
     (let (r, e) = s;
          (now, r1) = millis hw r
      in if now - scrollCooldown e \<ge> 100
         then
           (let (t, r2) = millis hw r1;
                e1 = e\<lparr>scrollCooldown := t\<rparr>
            in if valueHighlighted e1
               then
                 (let (a, r3) = analogRead hw rightY_pin r2
                  in if a > joyStickHighTrigger \<and> buffer e1 > 5
                     then (let e2 = e1\<lparr>buffer := buffer e1 - 5\<rparr>;
                               e3 = e2\<lparr>showCurrentValue := True\<rparr>;
                               (t', r4) = millis hw r3
                           in (r4, e3\<lparr>previousBlink := t'\<rparr>))
                     else
                       (let (a', r4) = analogRead hw rightY_pin r3
                        in if a' < joyStickLowTrigger \<and> buffer e1 < 100
                           then (let e2 = e1\<lparr>buffer := buffer e1 + 5\<rparr>;
                                     e3 = e2\<lparr>showCurrentValue := True\<rparr>;
                                     (t', r5) = millis hw r4
                                 in (r5, e3\<lparr>previousBlink := t'\<rparr>))
                           else (r4, e1)))
               else (r2, e1))
         else (r1, e))"

text \<open>
  Saving the selected value (the \<^verbatim>\<open>else\<close> branch under the acknowledge button):
  \<^verbatim>\<open>EEPROM.update(page, buffer)\<close>, then the live sensitivity of that page.
\<close>

definition editCommit :: "remote \<times> edit \<Rightarrow> remote \<times> edit" where
  "editCommit s =
     (let (r, e) = s;
          e1 = e\<lparr>valueHighlighted := False\<rparr>;
          e2 = e1\<lparr>showCurrentValue := True\<rparr>;
          r1 = r\<lparr>EEPROM := (EEPROM r)(slot (page e2) := buffer e2)\<rparr>;
          r2 = (if page e2 = False
                then r1\<lparr>txData := (txData r1)\<lparr>throttleSensitifity := buffer e2\<rparr>\<rparr>
                else r1\<lparr>txData := (txData r1)\<lparr>steerSensitifity := buffer e2\<rparr>\<rparr>)
      in (drawValueSet r2, e2))"

text \<open>
  Button input. The result carries whether the \<^verbatim>\<open>break\<close> was taken; the back button
  is only looked at when the acknowledge button gave no edge.
\<close>

definition editButtons :: "hardware \<Rightarrow> remote \<times> edit \<Rightarrow> (remote \<times> edit) \<times> bool" where
  "editButtons hw s =
     (let (r, e) = s;
          (ack, r1) = risingEdge hw ackButton_pin r
      in if ack
         then (if valueHighlighted e = False
               then ((r1, e\<lparr>valueHighlighted := True\<rparr>), False)
               else (editCommit (r1, e), False))
         else
           (let (back, r2) = risingEdge hw backButton_pin r1
            in if back
               then (if valueHighlighted e = False
                     then ((r2\<lparr>txData := (txData r2)\<lparr>mode := pro\<rparr>\<rparr>, e), True)
                     else (let e1 = e\<lparr>valueHighlighted := False\<rparr>;
                               e2 = e1\<lparr>showCurrentValue := True\<rparr>
                           in ((r2, e2\<lparr>buffer := EEPROM r2 (slot (page e2))\<rparr>), False)))
               else ((r2, e), False)))"

text \<open>Switching the edit tab when the left joystick is moved.\<close>

definition editPageSwitch :: "hardware \<Rightarrow> remote \<times> edit \<Rightarrow> remote \<times> edit" where
  "editPageSwitch hw s =
     (let (r, e) = s;
          (joystickValue, r1) = readJoystick hw leftY_pin r
      in if (joystickValue > joyStickHighTrigger \<or> joystickValue < joyStickLowTrigger)
            \<and> valueHighlighted e = False
         then (let e1 = e\<lparr>page := \<not> page e\<rparr>
               in if page e1 = False
                  then (r1, e1\<lparr>buffer := throttleSensitifity (txData r1)\<rparr>)
                  else (r1, e1\<lparr>buffer := steerSensitifity (txData r1)\<rparr>))
         else (r1, e))"





subsection \<open>Properties and example states of the remote\<close>

text \<open>
  \<open>steady hw pin v\<close>: every read of the analog input \<open>pin\<close> returns \<open>v\<close>, as while a
  joystick is held in one position. \<open>steady_hardware v\<close> is such hardware, with no button
  pressed.
\<close>

definition steady :: "hardware \<Rightarrow> byte \<Rightarrow> int \<Rightarrow> bool" where
  "steady hw pin v \<longleftrightarrow> (\<forall>n. analog_at hw n pin = v)"

definition steady_hardware :: "int \<Rightarrow> hardware" where
  "steady_hardware v =
     \<lparr>millis_at = (\<lambda>n. 0), analog_at = (\<lambda>n pin. v), digital_at = (\<lambda>n pin. HIGH)\<rparr>"

text \<open>
  \<open>editing r0 r\<close>: the packets sent between the states \<open>r0\<close> and \<open>r\<close> all carry the
  mode idle.
\<close>

definition editing :: "remote \<Rightarrow> remote \<Rightarrow> bool" where
  "editing r0 r \<longleftrightarrow>
     (\<exists>new. sent r = new @ sent r0 \<and> (\<forall>p\<in>set new. mode p = idle))"

text \<open>
  Hardware on which one button is held down (the inputs are pulled up, so its level is
  \<^verbatim>\<open>LOW\<close>), the joysticks rest at 512 and the clock advances 5 s between two reads; no
  button has pin 0. A remote in pro mode with 40 in slot 0 and 70 in slot 1, and the
  locals of the editor with the value 65 highlighted on the given page.
\<close>

definition button_hardware :: "byte \<Rightarrow> hardware" where
  "button_hardware pressed =
     \<lparr>millis_at = (\<lambda>n. 5000 * word_of_nat n + 5000),
      analog_at = (\<lambda>n pin. 512),
      digital_at = (\<lambda>n pin. pin \<noteq> pressed)\<rparr>"

definition sample_remote :: remote where
  "sample_remote =
     \<lparr>txData = (dataPackage_init idle)\<lparr>mode := pro, throttleSensitifity := 40,
        steerSensitifity := 70\<rparr>,
      previousSend = 0,
      lastButtonState = (\<lambda>i. HIGH),
      joystickHomed = (\<lambda>i. True),
      EEPROM = (\<lambda>i. 0)(0 := 40, 1 := 70),
      sendLED = False, sent = [], reads = 0\<rparr>"

definition sample_edit :: "bool \<Rightarrow> edit" where
  "sample_edit pg =
     \<lparr>previousBlink = 0, scrollCooldown = 0, showCurrentValue = True,
      valueHighlighted = True, page = pg, buffer = 65\<rparr>"





section \<open>Packet validation\<close>

lemma validateData_iff:
  "validateData p \<longleftrightarrow> list_all (\<lambda>f. in_domain f p) numeric_fields"
  by (auto simp: validateData_def numeric_fields_def axis_domain_def mode_domain_def
      sensitivity_domain_def)

lemma outside_domain_Nil:
  "outside_domain p = [] \<Longrightarrow> list_all (\<lambda>f. in_domain f p) numeric_fields"
  by (simp add: outside_domain_def filter_empty_conv list_all_iff)

lemma outside_domain_member:
  "f \<in> set (outside_domain p) \<longleftrightarrow> \<not> in_domain f p"
proof -
  have "f \<in> set (numeric_fields @ boolean_fields)"
    by (cases f) (simp_all add: numeric_fields_def boolean_fields_def)
  then show ?thesis by (auto simp: outside_domain_def)
qed

text \<open>
  Claim C3, as the code has it. \<open>validateData\<close> returns true for every packet whose
  members all lie inside their domains, and false for every packet in which exactly one
  member lies outside its domain when that member is an axis, the mode or a sensitivity.
  The ten boolean members are not checked: a packet whose only member outside its domain
  is a boolean is accepted.
\<close>

theorem validateData_domains:
  "(outside_domain p = [] \<longrightarrow> validateData p) \<and>
   (outside_domain p = [f] \<and> f \<in> set numeric_fields \<longrightarrow> \<not> validateData p) \<and>
   (outside_domain p = [f] \<and> f \<in> set boolean_fields \<longrightarrow> validateData p)"
proof (intro conjI impI)
  assume "outside_domain p = []"
  then show "validateData p"
    by (simp add: validateData_iff outside_domain_Nil)
next
  assume a: "outside_domain p = [f] \<and> f \<in> set numeric_fields"
  then have "f \<in> set (outside_domain p)" by simp
  then have "\<not> in_domain f p" by (simp add: outside_domain_member)
  with a show "\<not> validateData p"
    by (auto simp: validateData_iff list_all_iff)
next
  assume a: "outside_domain p = [f] \<and> f \<in> set boolean_fields"
  have "in_domain g p" if "g \<in> set numeric_fields" for g
  proof (rule ccontr)
    assume "\<not> in_domain g p"
    then have "g \<in> set (outside_domain p)" by (simp add: outside_domain_member)
    with a have "g = f" by simp
    with a that show False
      by (auto simp: numeric_fields_def boolean_fields_def)
  qed
  then show "validateData p"
    by (simp add: validateData_iff list_all_iff)
qed

text \<open>
  Claim C3 as stated fails for the boolean members: with the brake byte 2 and every other
  member inside its domain, exactly one member is outside its domain and the packet is
  accepted.
\<close>

theorem validateData_boolean_counterexample:
  "outside_domain (sample_packet\<lparr>brake := 2\<rparr>) = [Brake] \<and> validateData (sample_packet\<lparr>brake := 2\<rparr>)"
  by (simp add: outside_domain_def numeric_fields_def boolean_fields_def sample_packet_def
      validateData_def axis_domain_def mode_domain_def sensitivity_domain_def bool_domain_def easy_def)

theorem validateData_domains_witness:
  "outside_domain sample_packet = [] \<and> validateData sample_packet \<and>
   outside_domain (sample_packet\<lparr>mode := 7\<rparr>) = [Mode] \<and> Mode \<in> set numeric_fields \<and>
   \<not> validateData (sample_packet\<lparr>mode := 7\<rparr>) \<and>
   outside_domain (sample_packet\<lparr>honk := 255\<rparr>) = [Honk] \<and> Honk \<in> set boolean_fields \<and>
   validateData (sample_packet\<lparr>honk := 255\<rparr>)"
proof -
  have a: "outside_domain sample_packet = []"
    by (simp add: outside_domain_def numeric_fields_def boolean_fields_def sample_packet_def
      axis_domain_def mode_domain_def sensitivity_domain_def bool_domain_def easy_def)
  have b: "outside_domain (sample_packet\<lparr>mode := 7\<rparr>) = [Mode] \<and> Mode \<in> set numeric_fields"
    by (simp add: outside_domain_def numeric_fields_def boolean_fields_def sample_packet_def
      axis_domain_def mode_domain_def sensitivity_domain_def bool_domain_def easy_def)
  have c: "outside_domain (sample_packet\<lparr>honk := 255\<rparr>) = [Honk] \<and> Honk \<in> set boolean_fields"
    by (simp add: outside_domain_def numeric_fields_def boolean_fields_def sample_packet_def
      axis_domain_def mode_domain_def sensitivity_domain_def bool_domain_def easy_def)
  from a b c validateData_domains [of sample_packet Mode]
    validateData_domains [of "sample_packet\<lparr>mode := 7\<rparr>" Mode]
    validateData_domains [of "sample_packet\<lparr>honk := 255\<rparr>" Honk]
  show ?thesis by blast
qed


section \<open>Reception, link timeout and the interference indicator\<close>

lemma sample_packet_valid: "validateData sample_packet"
  by (simp add: validateData_def sample_packet_def easy_def)

lemma sample_packet_mode7_invalid: "\<not> validateData (sample_packet\<lparr>mode := 7\<rparr>)"
  by (simp add: validateData_def sample_packet_def)

lemmas mode_defs = idle_def easy_def pro_def debug_def notConnected_def

subsection \<open>What each operation leaves alone\<close>

lemma updateAccessoires_keeps [simp]:
  "rxData (updateAccessoires v) = rxData v"
  "lastReceive (updateAccessoires v) = lastReceive v"
  "servo (updateAccessoires v) = servo v"
  "interferenceLED (updateAccessoires v) = interferenceLED v"
  by (simp_all add: updateAccessoires_def Let_def)

lemma updatePwmDevices_keeps [simp]:
  "rxData (updatePwmDevices v) = rxData v"
  "lastReceive (updatePwmDevices v) = lastReceive v"
  "interferenceLED (updatePwmDevices v) = interferenceLED v"
  by (simp_all add: updatePwmDevices_def Let_def)

lemma updatePwmDevices_outputs:
  "servo (updatePwmDevices v) = pwmPosition (steerSensitifity (rxData v)) (leftX (rxData v))"
  "motorcontroller (updatePwmDevices v) =
     pwmPosition (throttleSensitifity (rxData v)) (rightY (rxData v))"
  by (simp_all add: updatePwmDevices_def Let_def)

lemma isConnected_keeps [simp]:
  "lastReceive (isConnected now v) = lastReceive v"
  "servo (isConnected now v) = servo v"
  "motorcontroller (isConnected now v) = motorcontroller v"
  "interferenceLED (isConnected now v) = interferenceLED v"
  by (simp_all add: isConnected_def)

lemma receiveData_None [simp]: "receiveData now None v = v"
  by (simp add: receiveData_def)

lemma receiveData_keeps [simp]:
  "servo (receiveData now incoming v) = servo v"
  "motorcontroller (receiveData now incoming v) = motorcontroller v"
  by (simp_all add: receiveData_def Let_def split: option.split)

lemma receiveData_lastReceive:
  "lastReceive (receiveData now (Some payload) v) = now"
  by (simp add: receiveData_def Let_def)

lemma receiveData_interferenceLED:
  "interferenceLED (receiveData now incoming v) =
     (interferenceLED v \<or> (\<exists>payload. incoming = Some payload \<and> \<not> validateData payload))"
  by (simp add: receiveData_def Let_def split: option.split)

lemma loop_cases:
  assumes "P (waitForRemote p v)" "P (idleMode p v)" "P (easyMode p v)" "P (proMode p v)"
    "P (debugMode p v)" "P v"
  shows "P (loop p v)"
  using assms by (simp add: loop_def)

lemma loop_silent_lastReceive:
  "radio p = None \<Longrightarrow> lastReceive (loop p v) = lastReceive v"
  by (rule loop_cases)
    (simp_all add: waitForRemote_def idleMode_def easyMode_def proMode_def debugMode_def Let_def)

lemma run_silent_lastReceive:
  "\<forall>p\<in>set ps. radio p = None \<Longrightarrow> lastReceive (run ps v) = lastReceive v"
  by (induction ps arbitrary: v) (simp_all add: loop_silent_lastReceive)

lemma loop_interferenceLED:
  "interferenceLED v \<Longrightarrow> interferenceLED (loop p v)"
  by (rule loop_cases)
    (simp_all add: waitForRemote_def idleMode_def easyMode_def proMode_def debugMode_def Let_def
      receiveData_interferenceLED)

lemma run_interferenceLED:
  "interferenceLED v \<Longrightarrow> interferenceLED (run ps v)"
  by (induction ps arbitrary: v) (simp_all add: loop_interferenceLED)

subsection \<open>A rejected packet\<close>

text \<open>
  Claim C4. When a received packet fails validation, the active packet \<open>rxData\<close> is left
  unchanged by the reception: the record after \<open>receiveData\<close> equals the record before,
  so every member keeps its value.
\<close>

theorem receiveData_rejected_keeps_rxData:
  "\<not> validateData payload \<Longrightarrow> rxData (receiveData now (Some payload) v) = rxData v"
  by (simp add: receiveData_def Let_def)

text \<open>Claim C4 at a packet with mode 7, received by the example vehicle.\<close>

theorem receiveData_rejected_keeps_rxData_witness:
  "\<not> validateData (sample_packet\<lparr>mode := 7\<rparr>) \<and>
   rxData (receiveData 100 (Some (sample_packet\<lparr>mode := 7\<rparr>)) sample_vehicle) = sample_packet"
  using receiveData_rejected_keeps_rxData [OF sample_packet_mode7_invalid, of 100 sample_vehicle]
  by (simp add: sample_packet_mode7_invalid sample_vehicle_def)

subsection \<open>The link timeout\<close>

lemma isConnected_within:
  "now - lastReceive v \<le> 3000 \<Longrightarrow> isConnected now v = v"
  by (simp add: isConnected_def not_less [symmetric])

lemma loop_quiet_within:
  "radio p = None \<Longrightarrow> now_link p - lastReceive v \<le> 3000 \<Longrightarrow>
     rxData (loop p v) = rxData v \<and> lastReceive (loop p v) = lastReceive v"
  by (rule loop_cases)
    (simp_all add: waitForRemote_def idleMode_def easyMode_def proMode_def debugMode_def
      Let_def isConnected_within)

lemma run_quiet_within:
  "\<forall>p\<in>set ps. radio p = None \<and> now_link p - lastReceive v \<le> 3000 \<Longrightarrow>
     rxData (run ps v) = rxData v"
proof (induction ps arbitrary: v)
  case Nil
  then show ?case by simp
next
  case (Cons p ps)
  then have l: "rxData (loop p v) = rxData v \<and> lastReceive (loop p v) = lastReceive v"
    by (simp add: loop_quiet_within)
  with Cons.prems have "\<forall>q\<in>set ps. radio q = None \<and> now_link q - lastReceive (loop p v) \<le> 3000"
    by simp
  from Cons.IH [OF this] l show ?case by simp
qed

lemma loop_quiet_timeout:
  assumes "radio p = None" "3000 < now_link p - lastReceive v" "mode (rxData v) = easy"
  shows "mode (rxData (loop p v)) = notConnected"
  using assms by (simp add: loop_def easyMode_def Let_def isConnected_def mode_defs)

lemma loop_rejected:
  assumes "radio p = Some payload" "\<not> validateData payload"
    "now_link p - now_receive p \<le> 3000" "mode (rxData v) = easy"
  shows "rxData (loop p v) = rxData v \<and> lastReceive (loop p v) = now_receive p"
proof -
  let ?w = "receiveData (now_receive p) (Some payload) v"
  have w: "rxData ?w = rxData v" "lastReceive ?w = now_receive p"
    using assms(2) by (simp_all add: receiveData_def Let_def)
  with assms(3) have "isConnected (now_link p) ?w = ?w"
    by (simp add: isConnected_within)
  with w assms(1,4) show ?thesis
    by (simp add: loop_def easyMode_def Let_def mode_defs)
qed

text \<open>
  Claim C1, as the code has it. \<open>receiveData\<close> takes the timestamp \<open>lastReceive\<close> as soon
  as the radio has data, before the payload is validated, so every received packet resets
  it, valid or not. When no packet at all arrives during any number of passes of the loop
  and more than 3000 ms have gone by since \<open>lastReceive\<close>, the next link check sets the
  mode to \<open>notConnected\<close>. A link check within 3000 ms of \<open>lastReceive\<close> changes
  nothing; so a link check within 3000 ms of the reception of a packet that failed
  validation leaves the active packet, and with it the mode, as it was before that
  reception, and so do any number of passes without a packet whose link checks fall within
  3000 ms of \<open>lastReceive\<close>.
\<close>

theorem link_timeout_any_reception:
  "lastReceive (receiveData now (Some payload) v) = now \<and>
   ((\<forall>p\<in>set ps. radio p = None) \<and> 3000 < now - lastReceive v \<longrightarrow>
      mode (rxData (isConnected now (run ps v))) = notConnected) \<and>
   (now - lastReceive v \<le> 3000 \<longrightarrow> isConnected now v = v) \<and>
   (\<not> validateData payload \<and> later - now \<le> 3000 \<longrightarrow>
      rxData (isConnected later (receiveData now (Some payload) v)) = rxData v) \<and>
   ((\<forall>p\<in>set qs. radio p = None \<and> now_link p - lastReceive v \<le> 3000) \<longrightarrow>
      rxData (run qs v) = rxData v)"
proof (intro conjI impI)
  show "lastReceive (receiveData now (Some payload) v) = now"
    by (rule receiveData_lastReceive)
next
  assume "(\<forall>p\<in>set ps. radio p = None) \<and> 3000 < now - lastReceive v"
  then show "mode (rxData (isConnected now (run ps v))) = notConnected"
    by (simp add: run_silent_lastReceive isConnected_def)
next
  assume "now - lastReceive v \<le> 3000"
  then show "isConnected now v = v" by (rule isConnected_within)
next
  assume a: "\<not> validateData payload \<and> later - now \<le> 3000"
  then have "isConnected later (receiveData now (Some payload) v)
      = receiveData now (Some payload) v"
    by (simp add: isConnected_within receiveData_lastReceive)
  with a show "rxData (isConnected later (receiveData now (Some payload) v)) = rxData v"
    by (simp add: receiveData_def Let_def)
next
  assume "\<forall>p\<in>set qs. radio p = None \<and> now_link p - lastReceive v \<le> 3000"
  then show "rxData (run qs v) = rxData v" by (rule run_quiet_within)
qed

text \<open>
  Claim C1 as stated fails. The vehicle waits for the remote and accepts \<open>sample_packet\<close>
  (mode easy) at time 0; no packet that passes validation arrives afterwards. With
  passes at 1500, 2900 and 3001 ms that receive nothing, the link check at 3001 ms
  disconnects. When instead the pass at 2900 ms receives a packet that fails validation,
  the passes at 3001, 4500 and 5900 ms keep the mode at easy, although at 5900 ms no
  packet has passed validation for 5900 ms: every link check falls within 3000 ms of the
  last reception (0, then 2900), and by the last part of the theorem above further passes
  in between change nothing.
\<close>

theorem link_timeout_counterexample:
  "validateData sample_packet \<and> \<not> validateData (sample_packet\<lparr>mode := 7\<rparr>) \<and>
   mode (rxData (run [packet_poll 0 sample_packet] waiting_vehicle)) = easy \<and>
   mode (rxData (run [packet_poll 0 sample_packet, quiet_poll 1500, quiet_poll 2900,
                      quiet_poll 3001] waiting_vehicle)) = notConnected \<and>
   mode (rxData (run [packet_poll 0 sample_packet, quiet_poll 1500,
                      packet_poll 2900 (sample_packet\<lparr>mode := 7\<rparr>),
                      quiet_poll 3001, quiet_poll 4500, quiet_poll 5900] waiting_vehicle))
     = easy"
proof -
  let ?bad = "sample_packet\<lparr>mode := 7\<rparr>"
  let ?v1 = "loop (packet_poll 0 sample_packet) waiting_vehicle"
  have v1: "rxData ?v1 = sample_packet" "lastReceive ?v1 = 0"
    by (simp_all add: validateData_def loop_def waitForRemote_def Let_def packet_poll_def
        receiveData_def waiting_vehicle_def sample_vehicle_def sample_packet_def
        dataPackage_init_def mode_defs)
  have easy: "mode sample_packet = easy" by (simp add: sample_packet_def)
  let ?v2 = "run [quiet_poll 1500, quiet_poll 2900] ?v1"
  have v2: "rxData ?v2 = sample_packet" "lastReceive ?v2 = 0"
    using run_quiet_within [of "[quiet_poll 1500, quiet_poll 2900]" ?v1]
      run_silent_lastReceive [of "[quiet_poll 1500, quiet_poll 2900]" ?v1] v1
    by (simp_all add: quiet_poll_def)
  have a: "mode (rxData (loop (quiet_poll 3001) ?v2)) = notConnected"
    using loop_quiet_timeout [of "quiet_poll 3001" ?v2] v2 easy
    by (simp add: quiet_poll_def)
  let ?v3 = "loop (packet_poll 2900 ?bad) (loop (quiet_poll 1500) ?v1)"
  have v15: "rxData (loop (quiet_poll 1500) ?v1) = sample_packet"
    using loop_quiet_within [of "quiet_poll 1500" ?v1] v1 by (simp add: quiet_poll_def)
  have v3: "rxData ?v3 = sample_packet" "lastReceive ?v3 = 2900"
    using loop_rejected [of "packet_poll 2900 ?bad" ?bad "loop (quiet_poll 1500) ?v1"]
      v15 easy sample_packet_mode7_invalid
    by (simp_all add: packet_poll_def)
  have b: "rxData (run [quiet_poll 3001, quiet_poll 4500, quiet_poll 5900] ?v3) = sample_packet"
    using run_quiet_within [of "[quiet_poll 3001, quiet_poll 4500, quiet_poll 5900]" ?v3] v3
    by (simp add: quiet_poll_def)
  from v1 a b easy sample_packet_valid sample_packet_mode7_invalid
  show ?thesis by simp
qed

text \<open>
  Claim C1 as amended, at the example vehicle (last reception at 0). A rejected packet at
  2900 ms moves the timestamp to 2900, and the link check at 5900 ms leaves the active
  packet alone. The link check at 3000 ms changes nothing, and neither do passes without
  a packet at 1000 and 2000 ms; after them the link check at 3500 ms disconnects.
\<close>

theorem link_timeout_any_reception_witness:
  "lastReceive (receiveData 2900 (Some (sample_packet\<lparr>mode := 7\<rparr>)) sample_vehicle) = 2900 \<and>
   radio (quiet_poll 1000) = None \<and> radio (quiet_poll 2000) = None \<and>
   3000 < (3500 :: millis_t) - lastReceive sample_vehicle \<and>
   mode (rxData (isConnected 3500 (run [quiet_poll 1000, quiet_poll 2000] sample_vehicle)))
     = notConnected \<and>
   (3000 :: millis_t) - lastReceive sample_vehicle \<le> 3000 \<and>
   isConnected 3000 sample_vehicle = sample_vehicle \<and>
   \<not> validateData (sample_packet\<lparr>mode := 7\<rparr>) \<and> (5900 :: millis_t) - 2900 \<le> 3000 \<and>
   rxData (isConnected 5900
      (receiveData 2900 (Some (sample_packet\<lparr>mode := 7\<rparr>)) sample_vehicle)) = sample_packet \<and>
   now_link (quiet_poll 1000) - lastReceive sample_vehicle \<le> 3000 \<and>
   now_link (quiet_poll 2000) - lastReceive sample_vehicle \<le> 3000 \<and>
   rxData (run [quiet_poll 1000, quiet_poll 2000] sample_vehicle) = sample_packet"
  using link_timeout_any_reception [of 2900 "sample_packet\<lparr>mode := 7\<rparr>" sample_vehicle
      "[quiet_poll 1000, quiet_poll 2000]" 5900 "[quiet_poll 1000, quiet_poll 2000]"]
    link_timeout_any_reception [of 3500 "sample_packet\<lparr>mode := 7\<rparr>" sample_vehicle
      "[quiet_poll 1000, quiet_poll 2000]" 5900 "[]"]
    link_timeout_any_reception [of 3000 "sample_packet\<lparr>mode := 7\<rparr>" sample_vehicle
      "[]" 5900 "[]"]
    sample_packet_mode7_invalid
  by (simp add: quiet_poll_def sample_vehicle_def)

subsection \<open>The interference indicator\<close>

text \<open>
  Claim C7, as the code has it. A rejected packet asserts the interference indicator, and
  nothing deasserts it: once asserted it is still asserted after any number of passes of
  the control loop, whatever they receive.
\<close>

theorem interference_latched:
  "(\<not> validateData payload \<longrightarrow> interferenceLED (receiveData now (Some payload) v)) \<and>
   (interferenceLED v \<longrightarrow> interferenceLED (run ps v))"
  by (simp add: receiveData_interferenceLED run_interferenceLED)

text \<open>
  Claim C7 as stated fails: the example vehicle, indicator off, rejects a packet in one
  pass and accepts a valid packet in the next; the valid packet has become the active
  packet and the indicator is still on.
\<close>

theorem interference_not_cleared_counterexample:
  "\<not> interferenceLED sample_vehicle \<and>
   \<not> validateData (sample_packet\<lparr>mode := 7\<rparr>) \<and> validateData (sample_packet\<lparr>brake := 0\<rparr>) \<and>
   interferenceLED (run [packet_poll 100 (sample_packet\<lparr>mode := 7\<rparr>)] sample_vehicle) \<and>
   rxData (run [packet_poll 100 (sample_packet\<lparr>mode := 7\<rparr>),
                packet_poll 200 (sample_packet\<lparr>brake := 0\<rparr>)] sample_vehicle)
     = sample_packet\<lparr>brake := 0\<rparr> \<and>
   interferenceLED (run [packet_poll 100 (sample_packet\<lparr>mode := 7\<rparr>),
                         packet_poll 200 (sample_packet\<lparr>brake := 0\<rparr>)] sample_vehicle)"
  by (simp add: loop_def easyMode_def Let_def packet_poll_def
      receiveData_def isConnected_def sample_vehicle_def sample_packet_def mode_defs
      validateData_def)

text \<open>Claim C7 as amended, at a rejected packet followed by a pass that accepts one.\<close>

theorem interference_latched_witness:
  "\<not> validateData (sample_packet\<lparr>mode := 7\<rparr>) \<and>
   interferenceLED (receiveData 100 (Some (sample_packet\<lparr>mode := 7\<rparr>)) sample_vehicle) \<and>
   interferenceLED (run [packet_poll 200 sample_packet]
      (receiveData 100 (Some (sample_packet\<lparr>mode := 7\<rparr>)) sample_vehicle))"
  using interference_latched [of "sample_packet\<lparr>mode := 7\<rparr>" 100 sample_vehicle]
    interference_latched [of sample_packet 200
      "receiveData 100 (Some (sample_packet\<lparr>mode := 7\<rparr>)) sample_vehicle"
      "[packet_poll 200 sample_packet]"]
  by (simp add: sample_packet_mode7_invalid)

section \<open>The actuators\<close>

subsection \<open>Idle mode\<close>

text \<open>
  Claim C6, as the code has it. In idle mode every pass of the control loop ends with the
  drive motor controller commanded to 90. The steering servo is not written in idle mode:
  it keeps the position it was last given.
\<close>

theorem idleMode_motor_neutral:
  "mode (rxData v) = idle \<Longrightarrow>
     motorcontroller (loop p v) = 90 \<and> servo (loop p v) = servo v"
  by (simp add: loop_def idleMode_def Let_def mode_defs)

text \<open>
  Claim C6 as stated fails for the steering servo: a vehicle in idle mode whose servo was
  last set to 45 still has it at 45 after a pass of the loop.
\<close>

theorem idleMode_servo_counterexample:
  "mode (rxData (sample_vehicle\<lparr>rxData := sample_packet\<lparr>mode := idle\<rparr>\<rparr>)) = idle \<and>
   servo (loop (quiet_poll 100) (sample_vehicle\<lparr>rxData := sample_packet\<lparr>mode := idle\<rparr>\<rparr>)) = 45"
  by (simp add: loop_def idleMode_def Let_def mode_defs sample_vehicle_def quiet_poll_def)

text \<open>Claim C6 as amended, at the example vehicle put into idle mode.\<close>

theorem idleMode_motor_neutral_witness:
  "mode (rxData (sample_vehicle\<lparr>rxData := sample_packet\<lparr>mode := idle\<rparr>\<rparr>)) = idle \<and>
   motorcontroller (loop (quiet_poll 100)
      (sample_vehicle\<lparr>rxData := sample_packet\<lparr>mode := idle\<rparr>\<rparr>)) = 90 \<and>
   servo (loop (quiet_poll 100)
      (sample_vehicle\<lparr>rxData := sample_packet\<lparr>mode := idle\<rparr>\<rparr>)) = 45"
  using idleMode_motor_neutral
    [of "sample_vehicle\<lparr>rxData := sample_packet\<lparr>mode := idle\<rparr>\<rparr>" "quiet_poll 100"]
  by (simp add: sample_vehicle_def)

subsection \<open>The sensitivity-scaled mapping\<close>

lemma pwmPosition_full_throttle: "pwmPosition 100 1023 = 180"
  by code_simp

lemma pwmPosition_center_5: "pwmPosition 5 512 = 89"
  by code_simp

lemma pwmBounds_5: "pwmMin 5 = 85 \<and> pwmMax 5 = 94"
  by code_simp

text \<open>The centred raw value at each sensitivity from 0 to 100, by evaluation.\<close>

lemma pwmPosition_center_a:
  "\<forall>k\<in>set [0..25]. pwmPosition (word_of_int k) 512 = (if k mod 10 = 0 then 90 else 89)"
  apply (simp add: upto.simps)
  apply (intro conjI)
  apply code_simp+
  done

lemma pwmPosition_center_b:
  "\<forall>k\<in>set [26..50]. pwmPosition (word_of_int k) 512 = (if k mod 10 = 0 then 90 else 89)"
  apply (simp add: upto.simps)
  apply (intro conjI)
  apply code_simp+
  done

lemma pwmPosition_center_c:
  "\<forall>k\<in>set [51..75]. pwmPosition (word_of_int k) 512 = (if k mod 10 = 0 then 90 else 89)"
  apply (simp add: upto.simps)
  apply (intro conjI)
  apply code_simp+
  done

lemma pwmPosition_center_d:
  "\<forall>k\<in>set [76..100]. pwmPosition (word_of_int k) 512 = (if k mod 10 = 0 then 90 else 89)"
  apply (simp add: upto.simps)
  apply (intro conjI)
  apply code_simp+
  done

lemma pwmPosition_center:
  assumes "0 \<le> sint s" "sint s \<le> 100"
  shows "pwmPosition s 512 = (if sint s mod 10 = 0 then 90 else 89)"
proof -
  have "sint s \<in> set [0..25] \<or> sint s \<in> set [26..50] \<or> sint s \<in> set [51..75]
      \<or> sint s \<in> set [76..100]"
    using assms unfolding set_upto atLeastAtMost_iff by linarith
  then have "pwmPosition (word_of_int (sint s)) 512 = (if sint s mod 10 = 0 then 90 else 89)"
    using pwmPosition_center_a pwmPosition_center_b pwmPosition_center_c pwmPosition_center_d
    by blast
  then show ?thesis by simp
qed

text \<open>
  Claim C8, as the code has it. The bounds are computed in \<^verbatim>\<open>float\<close> and converted to
  \<^verbatim>\<open>unsigned int\<close>, which drops the fraction of \<open>90 - 0.9 s\<close> and of \<open>90 + 0.9 s\<close>. For
  a sensitivity \<open>s\<close> in \<open>[0, 100]\<close> the centred raw value 512 gives exactly 90 when \<open>s\<close> is a
  multiple of 10 (the bounds are whole numbers) and 89 otherwise, on the steering servo
  and on the motor controller alike.
\<close>

theorem updatePwmDevices_center:
  assumes "0 \<le> sint s" "sint s \<le> 100"
  shows "(steerSensitifity (rxData v) = s \<and> leftX (rxData v) = 512 \<longrightarrow>
            servo (updatePwmDevices v) = (if sint s mod 10 = 0 then 90 else 89)) \<and>
         (throttleSensitifity (rxData v) = s \<and> rightY (rxData v) = 512 \<longrightarrow>
            motorcontroller (updatePwmDevices v) = (if sint s mod 10 = 0 then 90 else 89))"
  using pwmPosition_center [OF assms] by (simp add: updatePwmDevices_outputs)

text \<open>
  Claim C8 as stated fails at sensitivity 5: the bounds are 85 and 94 (from 85.5 and
  94.5), the interpolation of 512 from \<open>[0, 1023]\<close> onto them is 89, and 89 is what the
  steering servo receives.
\<close>

theorem updatePwmDevices_center_counterexample:
  "sint (5 :: int8_t) \<in> {0..100} \<and> pwmMin 5 = 85 \<and> pwmMax 5 = 94 \<and>
   map_arduino 512 0 1023 85 94 = 89 \<and>
   servo (updatePwmDevices
     (sample_vehicle\<lparr>rxData := sample_packet\<lparr>leftX := 512, steerSensitifity := 5\<rparr>\<rparr>)) = 89"
proof -
  have "map_arduino 512 0 1023 85 94 = 89" by code_simp
  then show ?thesis
    by (simp add: pwmBounds_5 updatePwmDevices_outputs pwmPosition_center_5)
qed

text \<open>Claim C8 as amended, at sensitivity 50 on both actuators.\<close>

theorem updatePwmDevices_center_witness:
  "0 \<le> sint (50 :: int8_t) \<and> sint (50 :: int8_t) \<le> 100 \<and>
   steerSensitifity (rxData centred_vehicle) = 50 \<and> leftX (rxData centred_vehicle) = 512 \<and>
   throttleSensitifity (rxData centred_vehicle) = 50 \<and> rightY (rxData centred_vehicle) = 512 \<and>
   servo (updatePwmDevices centred_vehicle) = 90 \<and>
   motorcontroller (updatePwmDevices centred_vehicle) = 90"
  using updatePwmDevices_center [of 50 centred_vehicle]
  by (simp add: centred_vehicle_def sample_vehicle_def sample_packet_def)

subsection \<open>The brake\<close>

lemma easyMode_motorcontroller:
  "motorcontroller (easyMode p v) =
     pwmPosition (throttleSensitifity (rxData (easyMode p v))) (rightY (rxData (easyMode p v)))"
  by (simp add: easyMode_def Let_def updatePwmDevices_outputs)

lemma proMode_motorcontroller:
  "motorcontroller (proMode p v) =
     pwmPosition (throttleSensitifity (rxData (proMode p v))) (rightY (rxData (proMode p v)))"
  by (simp add: proMode_def Let_def updatePwmDevices_outputs)

text \<open>
  Claim C2 does not hold on the code. The example vehicle is in easy mode with the brake
  flag of the active packet set, throttle sensitivity 100 and the throttle axis at 1023.
  \<open>updateAccessoires\<close> writes 0 to the motor controller, and \<open>updatePwmDevices\<close>, which
  runs after it in the same pass, writes the mapped throttle over it: at the end of the
  pass the motor controller is commanded to 180, in easy mode and in pro mode.
\<close>

theorem brake_overwritten_by_throttle:
  "mode (rxData sample_vehicle) = easy \<and> brake (rxData sample_vehicle) = 1 \<and>
   brake (rxData (loop (quiet_poll 100) sample_vehicle)) = 1 \<and>
   motorcontroller (updateAccessoires sample_vehicle) = 0 \<and>
   motorcontroller (loop (quiet_poll 100) sample_vehicle) = 180 \<and>
   motorcontroller
     (loop (quiet_poll 100) (sample_vehicle\<lparr>rxData := sample_packet\<lparr>mode := pro\<rparr>\<rparr>)) = 180"
  by (simp add: loop_def easyMode_def proMode_def Let_def updatePwmDevices_outputs
      isConnected_def updateAccessoires_def quiet_poll_def sample_vehicle_def sample_packet_def
      mode_defs pwmPosition_full_throttle)

section \<open>The remote\<close>

subsection \<open>What each operation leaves alone\<close>

lemmas hw_reads = millis_def analogRead_def digitalRead_def

lemma sendData_txData_mode [simp]:
  "mode (txData (sendData hw m r)) = mode (txData r)"
  by (simp add: sendData_def Let_def split_def hw_reads)

lemma sendData_keeps [simp]:
  "EEPROM (sendData hw m r) = EEPROM r"
  "lastButtonState (sendData hw m r) = lastButtonState r"
  "joystickHomed (sendData hw m r) = joystickHomed r"
  "throttleSensitifity (txData (sendData hw m r)) = throttleSensitifity (txData r)"
  "steerSensitifity (txData (sendData hw m r)) = steerSensitifity (txData r)"
  by (simp_all add: sendData_def Let_def split_def hw_reads)


lemma risingEdge_keeps [simp]:
  "txData (snd (risingEdge hw button r)) = txData r"
  "sent (snd (risingEdge hw button r)) = sent r"
  "EEPROM (snd (risingEdge hw button r)) = EEPROM r"
  "joystickHomed (snd (risingEdge hw button r)) = joystickHomed r"
  by (simp_all add: risingEdge_def Let_def split_def hw_reads split: option.split)

lemma readJoystick_keeps [simp]:
  "txData (snd (readJoystick hw joystick r)) = txData r"
  "sent (snd (readJoystick hw joystick r)) = sent r"
  "EEPROM (snd (readJoystick hw joystick r)) = EEPROM r"
  "lastButtonState (snd (readJoystick hw joystick r)) = lastButtonState r"
  by (simp_all add: readJoystick_def Let_def split_def hw_reads split: option.split)

lemma editBlink_keeps [simp]:
  "txData (fst (editBlink hw s)) = txData (fst s)"
  "sent (fst (editBlink hw s)) = sent (fst s)"
  "EEPROM (fst (editBlink hw s)) = EEPROM (fst s)"
  "lastButtonState (fst (editBlink hw s)) = lastButtonState (fst s)"
  "valueHighlighted (snd (editBlink hw s)) = valueHighlighted (snd s)"
  "page (snd (editBlink hw s)) = page (snd s)"
  "buffer (snd (editBlink hw s)) = buffer (snd s)"
  by (simp_all add: editBlink_def Let_def split_def hw_reads)

lemma editScroll_keeps [simp]:
  "txData (fst (editScroll hw s)) = txData (fst s)"
  "sent (fst (editScroll hw s)) = sent (fst s)"
  "EEPROM (fst (editScroll hw s)) = EEPROM (fst s)"
  "lastButtonState (fst (editScroll hw s)) = lastButtonState (fst s)"
  "valueHighlighted (snd (editScroll hw s)) = valueHighlighted (snd s)"
  "page (snd (editScroll hw s)) = page (snd s)"
  by (simp_all add: editScroll_def Let_def split_def hw_reads)

lemma editPageSwitch_keeps [simp]:
  "txData (fst (editPageSwitch hw s)) = txData (fst s)"
  "sent (fst (editPageSwitch hw s)) = sent (fst s)"
  "EEPROM (fst (editPageSwitch hw s)) = EEPROM (fst s)"
  "lastButtonState (fst (editPageSwitch hw s)) = lastButtonState (fst s)"
  "valueHighlighted (snd (editPageSwitch hw s)) = valueHighlighted (snd s)"
  by (simp_all add: editPageSwitch_def Let_def split_def)

lemma editCommit_keeps [simp]:
  "mode (txData (fst (editCommit s))) = mode (txData (fst s))"
  "sent (fst (editCommit s)) = sent (fst s)"
  "lastButtonState (fst (editCommit s)) = lastButtonState (fst s)"
  by (simp_all add: editCommit_def Let_def split_def drawValueSet_def)

lemma editButtons_sent [simp]:
  "sent (fst (fst (editButtons hw s))) = sent (fst s)"
  by (simp add: editButtons_def Let_def split_def)




subsection \<open>The homing of the joysticks\<close>

text \<open>The recognised axes are the four joystick pins; any other argument returns 512.\<close>

lemma joystickIndex_recognised:
  "joystickIndex joystick \<noteq> None \<longleftrightarrow>
     joystick \<in> {leftY_pin, leftX_pin, rightY_pin, rightX_pin}"
  by (simp add: joystickIndex_def)

lemma readJoystick_unknown:
  "joystickIndex joystick = None \<Longrightarrow> readJoystick hw joystick r = (512, r)"
  by (simp add: readJoystick_def)

lemma steady_hardware [simp]: "steady (steady_hardware v) pin v"
  by (simp add: steady_def steady_hardware_def)

lemmas trigger_defs = joyStickLowTrigger_def joyStickHighTrigger_def

lemma readJoystick_steady:
  assumes "joystickIndex joystick = Some index" "steady hw joystick v"
  shows "fst (readJoystick hw joystick r) =
           (if (v > 600 \<or> v < 400) \<and> joystickHomed r index then v else 512)"
    and "joystickHomed (snd (readJoystick hw joystick r)) index =
           (if 400 < v \<and> v < 600 then True
            else if v > 600 \<or> v < 400 then False
            else joystickHomed r index)"
  using assms
  by (auto simp: readJoystick_def Let_def split_def analogRead_def steady_def trigger_defs)

lemma readJoystick_calls_deflected:
  assumes "joystickIndex joystick = Some index" "v > 600 \<or> v < 400"
    "\<forall>hw\<in>set hws. steady hw joystick v" "\<not> joystickHomed r index"
  shows "fst (readJoystick_calls hws joystick r) = replicate (length hws) 512"
  using assms(3,4)
proof (induction hws arbitrary: r)
  case Nil
  then show ?case by simp
next
  case (Cons hw hws)
  then have s: "steady hw joystick v" by simp
  have "fst (readJoystick hw joystick r) = 512"
    "\<not> joystickHomed (snd (readJoystick hw joystick r)) index"
    using readJoystick_steady [OF assms(1) s, of r] assms(2) Cons.prems(2) by auto
  moreover from Cons have "\<forall>hw\<in>set hws. steady hw joystick v" by simp
  ultimately show ?case
    using Cons.IH [of "snd (readJoystick hw joystick r)"]
    by (simp add: Let_def split_def)
qed

text \<open>
  Claim C9. For a recognised axis that is homed, five consecutive calls of
  \<open>readJoystick\<close> that sample 550, 700, 700, 550 and 700 against the triggers 400 and 600
  return 512, 700, 512, 512 and 700: the real reading at the calls 1 and 4, the neutral
  512 at the others. And a deflection that is held over any number of calls is returned
  by the first call only; every further call returns 512.
\<close>

theorem readJoystick_homing:
  assumes "joystickIndex joystick = Some index" "joystickHomed r index"
  shows "(steady hw0 joystick 550 \<and> steady hw1 joystick 700 \<and> steady hw2 joystick 700 \<and>
          steady hw3 joystick 550 \<and> steady hw4 joystick 700 \<longrightarrow>
            fst (readJoystick_calls [hw0, hw1, hw2, hw3, hw4] joystick r)
              = [512, 700, 512, 512, 700]) \<and>
         ((v > 600 \<or> v < 400) \<and> (\<forall>h\<in>set (hw # hws). steady h joystick v) \<longrightarrow>
            fst (readJoystick_calls (hw # hws) joystick r) = v # replicate (length hws) 512)"
proof (intro conjI impI)
  assume a: "steady hw0 joystick 550 \<and> steady hw1 joystick 700 \<and> steady hw2 joystick 700 \<and>
          steady hw3 joystick 550 \<and> steady hw4 joystick 700"
  note rj = readJoystick_steady [OF assms(1)]
  let ?r0 = "snd (readJoystick hw0 joystick r)"
  let ?r1 = "snd (readJoystick hw1 joystick ?r0)"
  let ?r2 = "snd (readJoystick hw2 joystick ?r1)"
  let ?r3 = "snd (readJoystick hw3 joystick ?r2)"
  have 0: "fst (readJoystick hw0 joystick r) = 512" "joystickHomed ?r0 index"
    using a rj [of hw0 550 r] by simp_all
  have 1: "fst (readJoystick hw1 joystick ?r0) = 700" "\<not> joystickHomed ?r1 index"
    using a 0 rj [of hw1 700 ?r0] by simp_all
  have 2: "fst (readJoystick hw2 joystick ?r1) = 512" "\<not> joystickHomed ?r2 index"
    using a 1 rj [of hw2 700 ?r1] by simp_all
  have 3: "fst (readJoystick hw3 joystick ?r2) = 512" "joystickHomed ?r3 index"
    using a 2 rj [of hw3 550 ?r2] by simp_all
  have 4: "fst (readJoystick hw4 joystick ?r3) = 700"
    using a 3 rj [of hw4 700 ?r3] by simp_all
  from 0 1 2 3 4
  show "fst (readJoystick_calls [hw0, hw1, hw2, hw3, hw4] joystick r) = [512, 700, 512, 512, 700]"
    by (simp add: Let_def split_def)
next
  assume b: "(v > 600 \<or> v < 400) \<and> (\<forall>h\<in>set (hw # hws). steady h joystick v)"
  then have s: "steady hw joystick v" by simp
  have f: "fst (readJoystick hw joystick r) = v"
    "\<not> joystickHomed (snd (readJoystick hw joystick r)) index"
    using readJoystick_steady [OF assms(1) s, of r] assms(2) b by auto
  from b have "\<forall>h\<in>set hws. steady h joystick v" by simp
  from readJoystick_calls_deflected [OF assms(1) _ this f(2)] b f(1)
  show "fst (readJoystick_calls (hw # hws) joystick r) = v # replicate (length hws) 512"
    by (simp add: Let_def split_def)
qed

lemma leftY_index: "joystickIndex leftY_pin = Some 0"
  by (simp add: joystickIndex_def)

text \<open>
  Claim C9 on the left vertical axis of the example remote: the five samples of the
  claim, and a deflection to 900 held for three calls.
\<close>

theorem readJoystick_homing_witness:
  "joystickIndex leftY_pin = Some 0 \<and> joystickHomed sample_remote 0 \<and>
   steady (steady_hardware 550) leftY_pin 550 \<and> steady (steady_hardware 700) leftY_pin 700 \<and>
   fst (readJoystick_calls [steady_hardware 550, steady_hardware 700, steady_hardware 700,
          steady_hardware 550, steady_hardware 700] leftY_pin sample_remote)
     = [512, 700, 512, 512, 700] \<and>
   steady (steady_hardware 900) leftY_pin 900 \<and>
   fst (readJoystick_calls [steady_hardware 900, steady_hardware 900, steady_hardware 900]
          leftY_pin sample_remote) = [900, 512, 512]"
proof -
  have h: "joystickHomed sample_remote 0" by (simp add: sample_remote_def)
  from readJoystick_homing [OF leftY_index h, of "steady_hardware 550" "steady_hardware 700"
      "steady_hardware 700" "steady_hardware 550" "steady_hardware 700" 900
      "steady_hardware 900" "[steady_hardware 900, steady_hardware 900]"]
  show ?thesis using h by (simp add: leftY_index)
qed

subsection \<open>The persistent settings\<close>

lemma slot_simps [simp]: "slot False = 0" "slot True = 1"
  by (simp_all add: slot_def)

text \<open>
  Claim C5, as the code has it. Slot 0 holds the throttle sensitivity and slot 1 the
  steering sensitivity. Entering pro mode loads the throttle sensitivity from slot 0 and
  the steering sensitivity from slot 1. Acknowledging a highlighted value in the editor
  stores the buffer to slot 0 and to the live throttle sensitivity on page 0 (throttle),
  and to slot 1 and to the live steering sensitivity on page 1 (steering); the other
  sensitivity is left alone.
\<close>

theorem settings_slots:
  "throttleSensitifity (txData (drawProScreen_entry r)) = EEPROM r 0 \<and>
   steerSensitifity (txData (drawProScreen_entry r)) = EEPROM r 1 \<and>
   (fst (risingEdge hw ackButton_pin r) \<and> valueHighlighted e \<and> page e = False \<longrightarrow>
      EEPROM (fst (fst (editButtons hw (r, e)))) = (EEPROM r)(0 := buffer e) \<and>
      throttleSensitifity (txData (fst (fst (editButtons hw (r, e))))) = buffer e \<and>
      steerSensitifity (txData (fst (fst (editButtons hw (r, e))))) = steerSensitifity (txData r)) \<and>
   (fst (risingEdge hw ackButton_pin r) \<and> valueHighlighted e \<and> page e = True \<longrightarrow>
      EEPROM (fst (fst (editButtons hw (r, e)))) = (EEPROM r)(1 := buffer e) \<and>
      steerSensitifity (txData (fst (fst (editButtons hw (r, e))))) = buffer e \<and>
      throttleSensitifity (txData (fst (fst (editButtons hw (r, e))))) = throttleSensitifity (txData r))"
  by (simp add: drawProScreen_entry_def editButtons_def editCommit_def drawValueSet_def
      Let_def split_def)

lemmas pin_defs = A0_def A1_def A2_def A3_def rightX_pin_def rightY_pin_def
  rightJoystickButton_pin_def leftX_pin_def leftY_pin_def leftJoystickButton_pin_def
  backButton_pin_def ackButton_pin_def auxButton1_pin_def auxButton2_pin_def

lemma ack_edge: "fst (risingEdge (button_hardware ackButton_pin) ackButton_pin sample_remote)"
  by (simp add: risingEdge_def buttonIndex_def pin_defs digitalRead_def Let_def
      button_hardware_def sample_remote_def HIGH_def LOW_def)

text \<open>
  Claim C5 as stated has the slots the other way round. With 40 in slot 0 and 70 in slot
  1, entering pro mode gives the steering sensitivity 70 (slot 1, not slot 0) and the
  throttle sensitivity 40; committing 65 on the steering page leaves slot 0 at 40 and
  puts 65 into slot 1.
\<close>

theorem settings_slots_counterexample:
  "EEPROM sample_remote 0 = 40 \<and> EEPROM sample_remote 1 = 70 \<and>
   steerSensitifity (txData (drawProScreen_entry sample_remote)) = 70 \<and>
   throttleSensitifity (txData (drawProScreen_entry sample_remote)) = 40 \<and>
   page (sample_edit True) = True \<and> buffer (sample_edit True) = 65 \<and>
   EEPROM (fst (fst (editButtons (button_hardware ackButton_pin) (sample_remote, sample_edit True)))) 0 = 40 \<and>
   EEPROM (fst (fst (editButtons (button_hardware ackButton_pin) (sample_remote, sample_edit True)))) 1 = 65 \<and>
   steerSensitifity
     (txData (fst (fst (editButtons (button_hardware ackButton_pin) (sample_remote, sample_edit True))))) = 65"
  by (simp add: drawProScreen_entry_def editButtons_def editCommit_def drawValueSet_def
      risingEdge_def buttonIndex_def pin_defs digitalRead_def Let_def slot_def
      button_hardware_def sample_remote_def sample_edit_def HIGH_def LOW_def dataPackage_init_def)

text \<open>
  Claim C5 as amended, on the example remote: the loads at entry, and a commit of 65 on
  either page while the acknowledge button gives an edge.
\<close>

theorem settings_slots_witness:
  "throttleSensitifity (txData (drawProScreen_entry sample_remote)) = 40 \<and>
   steerSensitifity (txData (drawProScreen_entry sample_remote)) = 70 \<and>
   fst (risingEdge (button_hardware ackButton_pin) ackButton_pin sample_remote) \<and>
   valueHighlighted (sample_edit False) \<and> page (sample_edit False) = False \<and>
   EEPROM (fst (fst (editButtons (button_hardware ackButton_pin) (sample_remote, sample_edit False)))) 0 = 65 \<and>
   throttleSensitifity
     (txData (fst (fst (editButtons (button_hardware ackButton_pin) (sample_remote, sample_edit False))))) = 65 \<and>
   valueHighlighted (sample_edit True) \<and> page (sample_edit True) = True \<and>
   EEPROM (fst (fst (editButtons (button_hardware ackButton_pin) (sample_remote, sample_edit True)))) 1 = 65 \<and>
   steerSensitifity
     (txData (fst (fst (editButtons (button_hardware ackButton_pin) (sample_remote, sample_edit True))))) = 65"
  using settings_slots [of sample_remote "button_hardware ackButton_pin" "sample_edit False"]
    settings_slots [of sample_remote "button_hardware ackButton_pin" "sample_edit True"] ack_edge
  by (simp add: sample_edit_def sample_remote_def)

subsection \<open>The settings editor\<close>

lemma editing_refl: "editing r r"
  by (simp add: editing_def)

















end
